theory Spec2Isabelle
  imports Complex_Main "HOL-Library.Word"
begin

unbundle bit_operations_syntax

section \<open>JavaScript values, exceptions and diagnostics\<close>

type_synonym byte = "8 word"
type_synonym buffer = "byte list"

text \<open>
  The values the decoder can hand to the router: what \<^verbatim>\<open>JSON.parse\<close> yields, a decoded
  string, a \<^verbatim>\<open>Buffer\<close>, and the two empty values \<^verbatim>\<open>null\<close> and \<^verbatim>\<open>undefined\<close>.
  A number is the rational a finite double denotes (\<^verbatim>\<open>-0\<close> is \<open>0\<close>); only its test
  against zero is ever used. An object is its list of own properties; a lookup takes
  the first entry of a key.
\<close>

datatype jsval =
    JUndefined
  | JNull
  | JBool bool
  | JNum rat
  | JStr string
  | JArr "jsval list"
  | JObj "(string \<times> jsval) list"
  | JBuf buffer

text \<open>The exceptions a \<^verbatim>\<open>throw\<close> can carry in this module.\<close>

datatype exn =
    RangeError      \<comment> \<open>a \<^verbatim>\<open>Buffer\<close> read outside the buffer\<close>
  | LengthError     \<comment> \<open>\<^verbatim>\<open>new Error('Packet length doesn't match header information.')\<close>\<close>
  | ZlibError       \<comment> \<open>\<^verbatim>\<open>zlib.inflateSync\<close> rejected its input\<close>
  | SyntaxError     \<comment> \<open>\<^verbatim>\<open>JSON.parse\<close> rejected its input\<close>
  | TypeError       \<comment> \<open>a property read on \<^verbatim>\<open>null\<close> or \<^verbatim>\<open>undefined\<close>\<close>
  | SendError       \<comment> \<open>\<^verbatim>\<open>socket.send\<close> on a socket that is not open\<close>

text \<open>The lines written through \<^verbatim>\<open>Homey.app.debug\<close> by the decoder and the router.\<close>

datatype diag =
    PacketDecodeError exn     \<comment> \<open>'Realtime update API: error decoding update packet: %s'\<close>
  | UnknownPayloadType nat    \<comment> \<open>'Unknown payload packet type received in the realtime update events API: %s.'\<close>
  | UnableToProcess           \<comment> \<open>'Unable to process message from the realtime update events API.'\<close>

text \<open>JavaScript truthiness, as \<^verbatim>\<open>!x\<close> and \<^verbatim>\<open>if (x)\<close> test it.\<close>

fun truthy :: "jsval \<Rightarrow> bool" where
  "truthy JUndefined = False"
| "truthy JNull = False"
| "truthy (JBool b) = b"
| "truthy (JNum x) = (x \<noteq> 0)"
| "truthy (JStr s) = (s \<noteq> [])"
| "truthy (JArr vs) = True"
| "truthy (JObj kvs) = True"
| "truthy (JBuf bs) = True"

section \<open>The library functions the decoder calls\<close>

text \<open>
  \<^verbatim>\<open>zlib.inflateSync\<close>, \<^verbatim>\<open>JSON.parse\<close> and \<^verbatim>\<open>Buffer.prototype.toString\<close> belong to
  Node, not to this module, and are parameters of the decoder. The first two throw on
  bad input (\<open>None\<close>); \<^verbatim>\<open>toString\<close> never throws.
\<close>

record node_lib =
  inflateSync :: "buffer \<Rightarrow> buffer option"
  JSON_parse :: "string \<Rightarrow> jsval option"
  toString :: "buffer \<Rightarrow> string"

text \<open>
  Modelled from the spec: \<^verbatim>\<open>UfvConstants.UPDATE_PACKET_HEADER_SIZE\<close>; the constants
  module is absent, the spec fixes the header size to 8 bytes.
\<close>

definition UPDATE_PACKET_HEADER_SIZE :: nat where
  "UPDATE_PACKET_HEADER_SIZE = 8"

section \<open>Buffer reads\<close>

text \<open>\<^verbatim>\<open>buf.readUInt8(offset)\<close>: throws a RangeError outside the buffer.\<close>

definition readUInt8 :: "buffer \<Rightarrow> nat \<Rightarrow> exn + nat" where
  "readUInt8 buf off = (if off < length buf then Inr (unat (buf ! off)) else Inl RangeError)"

text \<open>\<^verbatim>\<open>buf.readUInt32BE(offset)\<close>: four bytes, most significant first.\<close>

definition readUInt32BE :: "buffer \<Rightarrow> nat \<Rightarrow> exn + nat" where
  "readUInt32BE buf off =
     (if off + 4 \<le> length buf
      then Inr (unat (buf ! off) * 2 ^ 24 + unat (buf ! (off + 1)) * 2 ^ 16
                + unat (buf ! (off + 2)) * 2 ^ 8 + unat (buf ! (off + 3)))
      else Inl RangeError)"

section \<open>The frame decoder\<close>

record update_packet =
  action :: jsval
  payload :: jsval

text \<open>\<^verbatim>\<open>JSON.parse(payload.toString())\<close>\<close>

definition parse_json :: "node_lib \<Rightarrow> buffer \<Rightarrow> exn + jsval" where
  "parse_json lib body =
     (case JSON_parse lib (toString lib body) of None \<Rightarrow> Inl SyntaxError | Some v \<Rightarrow> Inr v)"

text \<open>
  \<^verbatim>\<open>packet.readUInt8(2) ? zlib.inflateSync(packet.slice(8)) : packet.slice(8)\<close>,
  given the flag byte already read.
\<close>

definition frame_body :: "node_lib \<Rightarrow> buffer \<Rightarrow> nat \<Rightarrow> exn + buffer" where
  "frame_body lib packet flag =
     (if flag \<noteq> 0
      then (case inflateSync lib (drop UPDATE_PACKET_HEADER_SIZE packet) of
              None \<Rightarrow> Inl ZlibError
            | Some bs \<Rightarrow> Inr bs)
      else Inr (drop UPDATE_PACKET_HEADER_SIZE packet))"

text \<open>
  \<^verbatim>\<open>decodeUpdateFrame(packet, packetType)\<close>. The result pairs the diagnostics written
  with what the call does: \<open>Inl e\<close> when it throws \<open>e\<close>, \<open>Inr v\<close> when it returns \<open>v\<close>
  (\<open>JNull\<close> for \<^verbatim>\<open>null\<close>).
\<close>

definition decodeUpdateFrame :: "node_lib \<Rightarrow> buffer \<Rightarrow> nat \<Rightarrow> diag list \<times> (exn + jsval)" where
  "decodeUpdateFrame lib packet packetType =
     (case readUInt8 packet 0 of
        Inl e \<Rightarrow> ([], Inl e)
      | Inr frameType \<Rightarrow>
          if packetType \<noteq> frameType then ([], Inr JNull)
          else
            (case readUInt8 packet 1 of
               Inl e \<Rightarrow> ([], Inl e)
             | Inr payloadFormat \<Rightarrow>
                 (case readUInt8 packet 2 of
                    Inl e \<Rightarrow> ([], Inl e)
                  | Inr flag \<Rightarrow>
                      (case frame_body lib packet flag of
                         Inl e \<Rightarrow> ([], Inl e)
                       | Inr body \<Rightarrow>
                           if frameType = 1
                           then (if payloadFormat = 1 then ([], parse_json lib body)
                                 else ([], Inr JNull))
                           else if payloadFormat = 1 then ([], parse_json lib body)
                           else if payloadFormat = 2 then ([], Inr (JStr (toString lib body)))
                           else if payloadFormat = 3 then ([], Inr (JBuf body))
                           else ([UnknownPayloadType payloadFormat], Inr JNull)))))"

text \<open>
  The \<^verbatim>\<open>try\<close> block of \<^verbatim>\<open>decodeUpdatePacket\<close>: the two length reads and the size
  check; \<open>Inr dataOffset\<close> when nothing is thrown.
\<close>

definition packet_offset :: "buffer \<Rightarrow> exn + nat" where
  "packet_offset packet =
     (case readUInt32BE packet 4 of
        Inl e \<Rightarrow> Inl e
      | Inr n \<Rightarrow>
          (let dataOffset = n + UPDATE_PACKET_HEADER_SIZE in
           case readUInt32BE packet (dataOffset + 4) of
             Inl e \<Rightarrow> Inl e
           | Inr m \<Rightarrow>
               if length packet \<noteq> dataOffset + UPDATE_PACKET_HEADER_SIZE + m
               then Inl LengthError
               else Inr dataOffset))"

text \<open>
  \<^verbatim>\<open>decodeUpdatePacket(packet)\<close>: \<open>Inr None\<close> is the \<^verbatim>\<open>null\<close> return, \<open>Inl e\<close> an
  exception leaving the function. Only \<open>packet_offset\<close> runs inside the \<^verbatim>\<open>try\<close>; the
  two frame decodes run after it, the action frame first.
\<close>

definition decodeUpdatePacket :: "node_lib \<Rightarrow> buffer \<Rightarrow> diag list \<times> (exn + update_packet option)" where
  "decodeUpdatePacket lib packet =
     (case packet_offset packet of
        Inl error \<Rightarrow> ([PacketDecodeError error], Inr None)
      | Inr dataOffset \<Rightarrow>
          (case decodeUpdateFrame lib (take dataOffset packet) 1 of
             (d1, Inl e) \<Rightarrow> (d1, Inl e)
           | (d1, Inr actionFrame) \<Rightarrow>
               (case decodeUpdateFrame lib (drop dataOffset packet) 2 of
                  (d2, Inl e) \<Rightarrow> (d1 @ d2, Inl e)
                | (d2, Inr payloadFrame) \<Rightarrow>
                    if \<not> truthy actionFrame \<or> \<not> truthy payloadFrame
                    then (d1 @ d2, Inr None)
                    else (d1 @ d2, Inr (Some \<lparr>action = actionFrame, payload = payloadFrame\<rparr>)))))"

section \<open>The packet router\<close>

text \<open>
  A property read \<^verbatim>\<open>v.k\<close> for the keys the router reads (\<^verbatim>\<open>action\<close>, \<^verbatim>\<open>modelKey\<close>,
  \<^verbatim>\<open>stats\<close>, \<^verbatim>\<open>id\<close>): none of them exists on the prototypes of strings, numbers,
  booleans, arrays or buffers, so only an object can answer with anything but
  \<^verbatim>\<open>undefined\<close>; on \<^verbatim>\<open>null\<close> and \<^verbatim>\<open>undefined\<close> the read throws.
\<close>

fun lookup_prop :: "jsval \<Rightarrow> string \<Rightarrow> jsval" where
  "lookup_prop (JObj kvs) k = (case map_of kvs k of None \<Rightarrow> JUndefined | Some x \<Rightarrow> x)"
| "lookup_prop v k = JUndefined"

definition get_prop :: "jsval \<Rightarrow> string \<Rightarrow> exn + jsval" where
  "get_prop v k = (if v = JUndefined \<or> v = JNull then Inl TypeError else Inr (lookup_prop v k))"

text \<open>\<^verbatim>\<open>driver.onParseWesocketMessage(device, payload)\<close>, the one call the router makes.\<close>

datatype 'dev call = Forward 'dev jsval

text \<open>
  The body of the \<^verbatim>\<open>message\<close> listener after a packet was decoded. The registry
  \<^verbatim>\<open>driver.getDeviceById\<close> is a parameter; \<open>None\<close> is any falsy answer. The result
  lists the forwarding calls made, or is \<open>Inl e\<close> when the listener throws.
\<close>

definition route :: "(jsval \<Rightarrow> 'dev option) \<Rightarrow> update_packet \<Rightarrow> exn + 'dev call list" where
  "route getDeviceById updatePacket =
     (case get_prop (action updatePacket) ''action'' of
        Inl e \<Rightarrow> Inl e
      | Inr act \<Rightarrow>
          if act \<noteq> JStr ''update'' then Inr []
          else
            (case get_prop (action updatePacket) ''modelKey'' of
               Inl e \<Rightarrow> Inl e
             | Inr modelKey \<Rightarrow>
                 if modelKey \<noteq> JStr ''camera'' then Inr []
                 else
                   (case get_prop (payload updatePacket) ''stats'' of
                      Inl e \<Rightarrow> Inl e
                    | Inr stats \<Rightarrow>
                        if truthy stats then Inr []
                        else
                          (case get_prop (action updatePacket) ''id'' of
                             Inl e \<Rightarrow> Inl e
                           | Inr ident \<Rightarrow>
                               (case getDeviceById ident of
                                  None \<Rightarrow> Inr []
                                | Some device \<Rightarrow> Inr [Forward device (payload updatePacket)])))))"

text \<open>The whole \<^verbatim>\<open>message\<close> listener installed by \<^verbatim>\<open>configureUpdatesListener\<close>.\<close>

definition onMessage ::
  "node_lib \<Rightarrow> (jsval \<Rightarrow> 'dev option) \<Rightarrow> buffer \<Rightarrow> diag list \<times> (exn + 'dev call list)" where
  "onMessage lib getDeviceById event =
     (case decodeUpdatePacket lib event of
        (d, Inl e) \<Rightarrow> (d, Inl e)
      | (d, Inr None) \<Rightarrow> (d @ [UnableToProcess], Inr [])
      | (d, Inr (Some updatePacket)) \<Rightarrow> (d, route getDeviceById updatePacket))"

section \<open>The synthetic encoder of the round-trip property\<close>








section \<open>A small library instance for concrete packets\<close>

text \<open>
  An instance of the two library records on which concrete packets can be evaluated.
  It agrees with Node on the inputs used below: zlib streams that consist of one stored
  block (what \<^verbatim>\<open>deflate\<close> writes at level 0 for less than 65536 bytes), ASCII text,
  and the JSON texts of the table; \<^verbatim>\<open>x\<close> is not JSON and the empty buffer is not a
  zlib stream, for Node as for the instance.
\<close>

fun adler32_step :: "nat \<times> nat \<Rightarrow> byte \<Rightarrow> nat \<times> nat" where
  "adler32_step (a, b) x = (let a' = (a + unat x) mod 65521 in (a', (b + a') mod 65521))"

definition adler32 :: "buffer \<Rightarrow> nat" where
  "adler32 bs = (case foldl adler32_step (1, 0) bs of (a, b) \<Rightarrow> b * 65536 + a)"

definition stored_inflate :: "buffer \<Rightarrow> buffer option" where
  "stored_inflate bs =
     (case bs of
        cmf # flg # hdr # l0 # l1 # n0 # n1 # rest \<Rightarrow>
          (let len = unat l0 + 256 * unat l1 in
           if cmf = 0x78 \<and> flg = 0x01 \<and> hdr = 0x01 \<and> n0 = NOT l0 \<and> n1 = NOT l1
              \<and> length rest = len + 4
              \<and> readUInt32BE rest len = Inr (adler32 (take len rest))
           then Some (take len rest) else None)
      | _ \<Rightarrow> None)"


definition ascii_toString :: "buffer \<Rightarrow> string" where
  "ascii_toString bs = map (\<lambda>b. char_of (unat b)) bs"


definition json_table :: "(string \<times> jsval) list" where
  \<open>json_table =
     [(''{}'', JObj []),
      (''{"id":"c"}'', JObj [(''id'', JStr ''c'')]),
      (''{"stats":0}'', JObj [(''stats'', JNum 0)]),
      (''{"action":"update","modelKey":"camera","id":"cam1"}'',
         JObj [(''action'', JStr ''update''), (''modelKey'', JStr ''camera''),
               (''id'', JStr ''cam1'')])]\<close>

definition table_parse :: "string \<Rightarrow> jsval option" where
  "table_parse s = map_of json_table s"


definition demo_lib :: node_lib where
  "demo_lib = \<lparr>inflateSync = stored_inflate, JSON_parse = table_parse, toString = ascii_toString\<rparr>"


section \<open>The connection lifecycle\<close>

text \<open>
  A field that holds \<^verbatim>\<open>null\<close>, nothing at all (\<^verbatim>\<open>undefined\<close>, also after
  \<^verbatim>\<open>delete\<close>), or an object: a socket or a timer handle, named by a number.
\<close>

datatype ref = Null | Undefined | Obj nat

fun truthy_ref :: "ref \<Rightarrow> bool" where
  "truthy_ref (Obj n) = True"
| "truthy_ref r = False"

datatype status = Connecting | Connected | Disconnected | ErrorStatus

datatype logline =
    LogUpdateListener | LogUnableToConnect | LogErrorConnecting | LogPong | LogConnected
  | LogError | LogHostError | LogTerminate | LogReconnect | LogCalledWaitForBootstrap
  | LogCallingWaitForBootstrap | LogPing

text \<open>What the module does to the world, in the order it does it.\<close>

datatype effect =
    Status status        \<comment> \<open>\<^verbatim>\<open>homey.api.realtime(EVENT_SETTINGS_WEBSOCKET_STATUS, ...)\<close>\<close>
  | LastPong             \<comment> \<open>\<^verbatim>\<open>homey.api.realtime(EVENT_SETTINGS_WEBSOCKET_LASTPONG, ...)\<close>\<close>
  | LastMessage          \<comment> \<open>\<^verbatim>\<open>homey.api.realtime(EVENT_SETTINGS_WEBSOCKET_LASTMESSAGE, ...)\<close>\<close>
  | Debug logline        \<comment> \<open>\<^verbatim>\<open>Homey.app.debug(...)\<close>\<close>
  | NewSocket nat        \<comment> \<open>\<^verbatim>\<open>new WebSocket(...)\<close> returned this socket\<close>
  | SetInterval nat      \<comment> \<open>\<^verbatim>\<open>setInterval(..., 15000)\<close> returned this timer\<close>
  | ClearInterval ref    \<comment> \<open>\<^verbatim>\<open>clearInterval(this._pingPong)\<close>\<close>
  | SetTimeout           \<comment> \<open>\<^verbatim>\<open>setTimeout(this.waitForBootstrap.bind(this), 250)\<close>\<close>
  | SocketClose nat      \<comment> \<open>\<^verbatim>\<open>socket.close()\<close>\<close>
  | SocketSend nat       \<comment> \<open>\<^verbatim>\<open>socket.send('ping')\<close>\<close>
  | RouterRuns nat       \<comment> \<open>the router's \<^verbatim>\<open>message\<close> listener runs for this socket\<close>
  | Uncaught exn         \<comment> \<open>an exception leaves a callback\<close>

text \<open>
  The three fields of \<^verbatim>\<open>ProtectWebSocket\<close>, the bootstrap cursor it reads, and the
  part of the runtime it acts on: the running interval timers, the number of pending
  \<^verbatim>\<open>waitForBootstrap\<close> timeouts, the sockets that can still emit events, the sockets
  that carry the router's listener (one entry for each time it was registered), the
  next unused handle, and the effects so far.
\<close>

record conn =
  eventListener :: ref
  eventListenerConfigured :: bool
  pingPong :: ref
  lastUpdateId :: bool
  intervals :: "nat list"
  timeouts :: nat
  live :: "nat list"
  routed :: "nat list"
  next_id :: nat
  effects :: "effect list"

text \<open>The state after \<^verbatim>\<open>new ProtectWebSocket()\<close>, the cursor absent or present.\<close>

definition init_conn :: "bool \<Rightarrow> conn" where
  "init_conn cursor =
     \<lparr>eventListener = Null, eventListenerConfigured = False, pingPong = Null,
      lastUpdateId = cursor, intervals = [], timeouts = 0, live = [], routed = [],
      next_id = 0, effects = []\<rparr>"

definition emit :: "effect \<Rightarrow> conn \<Rightarrow> conn" where
  "emit e s = s\<lparr>effects := effects s @ [e]\<rparr>"

definition emits :: "effect list \<Rightarrow> conn \<Rightarrow> conn" where
  "emits es s = s\<lparr>effects := effects s @ es\<rparr>"

text \<open>
  How \<^verbatim>\<open>new WebSocket(...)\<close> ends. A \<^verbatim>\<open>new\<close> expression that completes yields an
  object; \<open>ReturnsFalsy\<close> stands for the value the branch \<^verbatim>\<open>if (!_ws)\<close> tests for.
\<close>

datatype ctor = Throws | ReturnsFalsy | ReturnsObject

text \<open>
  \<^verbatim>\<open>launchUpdatesListener()\<close>: the returned boolean and the new state. The socket gets
  the next handle \<open>w\<close> and its heartbeat timer the handle \<open>w + 1\<close>. The five listeners of
  the socket are the functions \<open>on_pong\<close>, \<open>on_message\<close>, \<open>on_open\<close>, \<open>on_close\<close> and
  \<open>on_error\<close> below.
\<close>

definition launchUpdatesListener :: "ctor \<Rightarrow> conn \<Rightarrow> bool \<times> conn" where
  "launchUpdatesListener r s =
     (if truthy_ref (eventListener s) then (True, s)
      else
        (let s1 = emit (Status Connecting) (emit (Debug LogUpdateListener) s) in
         case r of
           Throws \<Rightarrow> (True, emit (Status ErrorStatus) (emit (Debug LogErrorConnecting) s1))
         | ReturnsFalsy \<Rightarrow>
             (False, (emit (Debug LogUnableToConnect) s1)
                       \<lparr>eventListener := Null, eventListenerConfigured := False\<rparr>)
         | ReturnsObject \<Rightarrow>
             (let w = next_id s1; t = w + 1 in
              (True, s1\<lparr>eventListener := Obj w, pingPong := Obj t,
                        intervals := t # intervals s1, live := w # live s1,
                        next_id := w + 2,
                        effects := effects s1 @ [NewSocket w, SetInterval t]\<rparr>))))"

text \<open>\<^verbatim>\<open>configureUpdatesListener()\<close>; it always returns \<^verbatim>\<open>true\<close>.\<close>

definition configureUpdatesListener :: "conn \<Rightarrow> conn" where
  "configureUpdatesListener s =
     (case eventListener s of
        Obj w \<Rightarrow>
          if eventListenerConfigured s then s
          else s\<lparr>routed := w # routed s, eventListenerConfigured := True\<rparr>
      | _ \<Rightarrow> s)"

text \<open>\<^verbatim>\<open>disconnectEventListener()\<close>: the executor of the promise, which runs at once.\<close>

definition disconnectEventListener :: "conn \<Rightarrow> conn" where
  "disconnectEventListener s =
     (case eventListener s of
        Obj w \<Rightarrow> (emit (SocketClose w) (emit (Debug LogTerminate) s))\<lparr>eventListenerConfigured := False\<rparr>
      | _ \<Rightarrow> s\<lparr>eventListenerConfigured := False\<rparr>)"

text \<open>\<^verbatim>\<open>waitForBootstrap()\<close>; \<open>r\<close> is how the constructor ends if it comes to be called.\<close>

definition waitForBootstrap :: "ctor \<Rightarrow> conn \<Rightarrow> conn" where
  "waitForBootstrap r s =
     (if lastUpdateId s
      then configureUpdatesListener
             (snd (launchUpdatesListener r (emit (Debug LogCalledWaitForBootstrap) s)))
      else (emit SetTimeout (emit (Debug LogCallingWaitForBootstrap) s))
             \<lparr>timeouts := timeouts s + 1\<rparr>)"

text \<open>
  \<^verbatim>\<open>reconnectUpdatesListener()\<close>. The promise of \<^verbatim>\<open>disconnectEventListener\<close> is already
  resolved, so its \<^verbatim>\<open>then\<close> callback runs as a microtask when the current callback
  returns, before any other event: the model runs it in the same step.
\<close>

definition reconnectUpdatesListener :: "ctor \<Rightarrow> conn \<Rightarrow> conn" where
  "reconnectUpdatesListener r s =
     waitForBootstrap r (disconnectEventListener (emit (Debug LogReconnect) s))"

text \<open>
  \<^verbatim>\<open>sendPingPongMessage()\<close>: the test is \<^verbatim>\<open>!== null\<close>, so a deleted listener passes it and
  the \<^verbatim>\<open>send\<close> on \<^verbatim>\<open>undefined\<close> throws. On a socket the \<^verbatim>\<open>send\<close> of the library may
  throw as well (it does while the socket is still connecting); \<open>sendThrows\<close> says
  whether it does, and then nothing is sent and the line after it is not reached.
\<close>

definition sendPingPongMessage :: "bool \<Rightarrow> conn \<Rightarrow> conn" where
  "sendPingPongMessage sendThrows s =
     (case eventListener s of
        Null \<Rightarrow> s
      | Undefined \<Rightarrow> emit (Uncaught TypeError) s
      | Obj w \<Rightarrow>
          if sendThrows then emit (Uncaught SendError) s
          else emit (Debug LogPing) (emit (SocketSend w) s))"

text \<open>\<^verbatim>\<open>clearInterval(h)\<close>: stops the timer if \<open>h\<close> is one that runs.\<close>

definition clearInterval :: "ref \<Rightarrow> conn \<Rightarrow> conn" where
  "clearInterval h s =
     (case h of
        Obj t \<Rightarrow> (emit (ClearInterval h) s)\<lparr>intervals := removeAll t (intervals s)\<rparr>
      | _ \<Rightarrow> emit (ClearInterval h) s)"

text \<open>The listeners registered on the socket by \<^verbatim>\<open>launchUpdatesListener\<close>.\<close>

definition on_pong :: "conn \<Rightarrow> conn" where
  "on_pong s = emit (Debug LogPong) (emit LastPong s)"

definition on_message :: "conn \<Rightarrow> conn" where
  "on_message s = emit LastMessage s"

definition on_open :: "conn \<Rightarrow> conn" where
  "on_open s = emit (Status Connected) (emit (Debug LogConnected) s)"

definition on_close :: "ctor \<Rightarrow> conn \<Rightarrow> conn" where
  "on_close r s =
     reconnectUpdatesListener r
       (emit (Status Disconnected)
          (clearInterval (pingPong s)
             (s\<lparr>eventListener := Undefined, eventListenerConfigured := False\<rparr>)))"

text \<open>
  The \<^verbatim>\<open>error\<close> listener; \<open>expected\<close> says that the message is 'WebSocket was closed
  before the connection was established'.
\<close>

definition on_error :: "bool \<Rightarrow> conn \<Rightarrow> conn" where
  "on_error expected s =
     (let s1 = emit (Debug LogError) s;
          s2 = (if expected then s1 else emit (Debug LogHostError) s1)
      in emit (Status ErrorStatus) s2)"

text \<open>
  What can happen to the module: a call of one of its methods from outside, a change of
  the bootstrap cursor, a timer that fires, an event of a socket. A constructor outcome
  is attached wherever the event may come to call the constructor, and a tick of a
  heartbeat timer says whether the \<^verbatim>\<open>send\<close> it makes throws.
\<close>

datatype event =
    Launch ctor
  | Configure
  | Disconnect
  | Reconnect ctor
  | WaitForBootstrap ctor
  | Bootstrap bool
  | PollTimeout ctor
  | Tick nat bool
  | SockOpen nat
  | SockPong nat
  | SockMessage nat
  | SockError nat bool
  | SockClose nat ctor

text \<open>
  One turn of the event loop; \<open>None\<close> when the event cannot happen: a timer fires only
  while it runs, a timeout only while one is pending, and a socket emits events only
  until its \<^verbatim>\<open>close\<close> event. A \<^verbatim>\<open>message\<close> event runs the listener of
  \<open>launchUpdatesListener\<close> and then the router's listener, once for each time
  \<open>configureUpdatesListener\<close> registered it on the socket.
\<close>

fun step :: "event \<Rightarrow> conn \<Rightarrow> conn option" where
  "step (Launch r) s = Some (snd (launchUpdatesListener r s))"
| "step Configure s = Some (configureUpdatesListener s)"
| "step Disconnect s = Some (disconnectEventListener s)"
| "step (Reconnect r) s = Some (reconnectUpdatesListener r s)"
| "step (WaitForBootstrap r) s = Some (waitForBootstrap r s)"
| "step (Bootstrap b) s = Some (s\<lparr>lastUpdateId := b\<rparr>)"
| "step (PollTimeout r) s =
     (if 0 < timeouts s then Some (waitForBootstrap r (s\<lparr>timeouts := timeouts s - 1\<rparr>)) else None)"
| "step (Tick t sendThrows) s =
     (if t \<in> set (intervals s) then Some (sendPingPongMessage sendThrows s) else None)"
| "step (SockOpen w) s = (if w \<in> set (live s) then Some (on_open s) else None)"
| "step (SockPong w) s = (if w \<in> set (live s) then Some (on_pong s) else None)"
| "step (SockMessage w) s =
     (if w \<in> set (live s)
      then Some (emits (replicate (count_list (routed s) w) (RouterRuns w)) (on_message s))
      else None)"
| "step (SockError w expected) s = (if w \<in> set (live s) then Some (on_error expected s) else None)"
| "step (SockClose w r) s =
     (if w \<in> set (live s) then Some (on_close r (s\<lparr>live := removeAll w (live s)\<rparr>)) else None)"

text \<open>A sequence of turns.\<close>

fun run :: "event list \<Rightarrow> conn \<Rightarrow> conn option" where
  "run [] s = Some s"
| "run (e # es) s = (case step e s of None \<Rightarrow> None | Some s' \<Rightarrow> run es s')"

section \<open>The size condition of a packet, in the words of the specification\<close>

text \<open>
  \<open>buffer.length = dataOffset + 8 + payloadLength\<close>, with \<open>dataOffset\<close> 8 plus the
  big-endian 32-bit number at offset 4 and \<open>payloadLength\<close> the one at offset
  \<open>dataOffset + 4\<close>; false when the buffer is too short for either read.
\<close>

definition length_matches_header :: "buffer \<Rightarrow> bool" where
  "length_matches_header buf =
     (case readUInt32BE buf 4 of
        Inl _ \<Rightarrow> False
      | Inr n \<Rightarrow>
          (case readUInt32BE buf (8 + n + 4) of
             Inl _ \<Rightarrow> False
           | Inr m \<Rightarrow> length buf = (8 + n) + 8 + m))"

section \<open>A registry and an action for concrete packets\<close>

text \<open>A registry that knows one camera, \<^verbatim>\<open>cam1\<close>, as device 0.\<close>

definition one_camera :: "jsval \<Rightarrow> nat option" where
  "one_camera ident = (if ident = JStr ''cam1'' then Some 0 else None)"

text \<open>The action of a camera update for \<^verbatim>\<open>cam1\<close>.\<close>

definition camera_update :: jsval where
  "camera_update =
     JObj [(''action'', JStr ''update''), (''modelKey'', JStr ''camera''), (''id'', JStr ''cam1'')]"

section \<open>Invariants of the connection lifecycle\<close>

text \<open>
  What every state the module can reach satisfies: while a listener is held, it is the
  one socket that can still emit events, \<^verbatim>\<open>_pingPong\<close> is its heartbeat timer and that
  timer is the only one running; while none is held, no socket is alive and no heartbeat
  timer runs.
\<close>

definition wf_conn :: "conn \<Rightarrow> bool" where
  "wf_conn s =
     (case eventListener s of
        Obj w \<Rightarrow> pingPong s = Obj (w + 1) \<and> intervals s = [w + 1] \<and> live s = [w]
                 \<and> w + 1 < next_id s
      | _ \<Rightarrow> intervals s = [] \<and> live s = [])"

text \<open>The socket \<open>w\<close> was handed out earlier and is not the listener any more.\<close>

definition retired :: "nat \<Rightarrow> conn \<Rightarrow> bool" where
  "retired w s = (w < next_id s \<and> eventListener s \<noteq> Obj w)"

text \<open>The effects added on the way from a state to a later one.\<close>

definition effects_since :: "conn \<Rightarrow> conn \<Rightarrow> effect list" where
  "effects_since s s' = drop (length (effects s)) (effects s')"

text \<open>
  From \<open>s\<close> to the later state \<open>s'\<close> the effects only grew, nothing was sent to the socket
  \<open>w\<close>, and \<open>w\<close> is retired in \<open>s'\<close>.
\<close>

definition silent_for :: "nat \<Rightarrow> conn \<Rightarrow> conn \<Rightarrow> bool" where
  "silent_for w s s' =
     (retired w s' \<and> take (length (effects s)) (effects s') = effects s
      \<and> SocketSend w \<notin> set (effects_since s s'))"

section \<open>Length-mismatch rejection\<close>

lemma packet_offset_Inl:
  "\<not> length_matches_header packet \<Longrightarrow> \<exists>e. packet_offset packet = Inl e"
  by (auto simp: length_matches_header_def packet_offset_def UPDATE_PACKET_HEADER_SIZE_def
        Let_def add.commute add.left_commute split: sum.splits)

text \<open>
  Claim C5: a buffer whose length is not \<open>dataOffset + 8 + payloadLength\<close>, or that is
  too short for the two length reads, makes \<open>decodeUpdatePacket\<close> return \<^verbatim>\<open>null\<close>:
  nothing is thrown, no frame is decoded, and the one diagnostic written is that of the
  \<^verbatim>\<open>catch\<close> block.
\<close>

theorem length_mismatch_returns_null:
  "\<not> length_matches_header packet \<Longrightarrow>
     \<exists>e. decodeUpdatePacket lib packet = ([PacketDecodeError e], Inr None)"
  using packet_offset_Inl [of packet] by (auto simp: decodeUpdatePacket_def)

theorem length_mismatch_returns_null_witness:
  "\<not> length_matches_header [1, 1, 0, 0, 0, 0, 0, 2, 123, 125, 2, 1, 0, 0, 0, 0, 0, 3, 123, 125]
   \<and> \<not> length_matches_header [1, 1, 0]
   \<and> (\<exists>e. decodeUpdatePacket demo_lib
              [1, 1, 0, 0, 0, 0, 0, 2, 123, 125, 2, 1, 0, 0, 0, 0, 0, 3, 123, 125]
            = ([PacketDecodeError e], Inr None))
   \<and> (\<exists>e. decodeUpdatePacket demo_lib [1, 1, 0] = ([PacketDecodeError e], Inr None))"
proof -
  have a: "\<not> length_matches_header
               [1, 1, 0, 0, 0, 0, 0, 2, 123, 125, 2, 1, 0, 0, 0, 0, 0, 3, 123, 125]"
    by (simp add: length_matches_header_def readUInt32BE_def)
  have b: "\<not> length_matches_header [1, 1, 0]"
    by (simp add: length_matches_header_def readUInt32BE_def)
  show ?thesis
    using a b length_mismatch_returns_null [OF a, of demo_lib]
      length_mismatch_returns_null [OF b, of demo_lib] by simp
qed

section \<open>Round trip through the synthetic encoder\<close>











subsection \<open>Concrete packets\<close>

lemma ascii_braces: "ascii_toString [123, 125] = ''{}''"
  by code_simp






lemma frame_empty_object:
  "decodeUpdateFrame demo_lib [1, 1, 0, 0, 0, 0, 0, 2, 123, 125] (Suc 0) = ([], Inr (JObj []))"
  by (simp add: decodeUpdateFrame_def readUInt8_def frame_body_def parse_json_def
        UPDATE_PACKET_HEADER_SIZE_def demo_lib_def ascii_braces table_parse_def json_table_def)












section \<open>Exceptions of the frame decodes\<close>

lemma ascii_x: "ascii_toString [120] = ''x''"
  by code_simp

lemma frame_not_json:
  "decodeUpdateFrame demo_lib [1, 1, 0, 0, 0, 0, 0, 1, 120] (Suc 0) = ([], Inl SyntaxError)"
  by (simp add: decodeUpdateFrame_def readUInt8_def frame_body_def parse_json_def
        UPDATE_PACKET_HEADER_SIZE_def demo_lib_def ascii_x table_parse_def json_table_def)

lemma frame_not_zlib:
  "decodeUpdateFrame demo_lib [2, 1, 1, 0, 0, 0, 0, 0] 2 = ([], Inl ZlibError)"
  by (simp add: decodeUpdateFrame_def readUInt8_def frame_body_def
        UPDATE_PACKET_HEADER_SIZE_def demo_lib_def stored_inflate_def)

text \<open>
  Claim C1 at two packets that pass the size check: an action frame whose body \<^verbatim>\<open>x\<close> is
  not JSON, and a payload frame flagged as deflated whose body is empty. The exception
  of \<^verbatim>\<open>JSON.parse\<close> or \<^verbatim>\<open>zlib.inflateSync\<close> leaves \<open>decodeUpdatePacket\<close> and the
  \<^verbatim>\<open>message\<close> listener that called it; neither returns \<^verbatim>\<open>null\<close>.
\<close>

theorem frame_exception_escapes:
  "decodeUpdatePacket demo_lib [1, 1, 0, 0, 0, 0, 0, 1, 120, 2, 1, 0, 0, 0, 0, 0, 2, 123, 125]
     = ([], Inl SyntaxError)
   \<and> decodeUpdatePacket demo_lib [1, 1, 0, 0, 0, 0, 0, 2, 123, 125, 2, 1, 1, 0, 0, 0, 0, 0]
     = ([], Inl ZlibError)
   \<and> onMessage demo_lib getDeviceById
        [1, 1, 0, 0, 0, 0, 0, 1, 120, 2, 1, 0, 0, 0, 0, 0, 2, 123, 125]
     = ([], Inl SyntaxError)"
proof -
  have o1: "packet_offset [1, 1, 0, 0, 0, 0, 0, 1, 120, 2, 1, 0, 0, 0, 0, 0, 2, 123, 125] = Inr 9"
    by (simp add: packet_offset_def readUInt32BE_def UPDATE_PACKET_HEADER_SIZE_def)
  have o2: "packet_offset [1, 1, 0, 0, 0, 0, 0, 2, 123, 125, 2, 1, 1, 0, 0, 0, 0, 0] = Inr 10"
    by (simp add: packet_offset_def readUInt32BE_def UPDATE_PACKET_HEADER_SIZE_def)
  have d1: "decodeUpdatePacket demo_lib
              [1, 1, 0, 0, 0, 0, 0, 1, 120, 2, 1, 0, 0, 0, 0, 0, 2, 123, 125]
            = ([], Inl SyntaxError)"
    by (simp add: decodeUpdatePacket_def o1 frame_not_json)
  have d2: "decodeUpdatePacket demo_lib
              [1, 1, 0, 0, 0, 0, 0, 2, 123, 125, 2, 1, 1, 0, 0, 0, 0, 0]
            = ([], Inl ZlibError)"
    by (simp add: decodeUpdatePacket_def o2 frame_empty_object frame_not_zlib)
  show ?thesis
    by (simp add: d1 d2 onMessage_def)
qed

text \<open>The first of the two packets once more, by what the calls do with it.\<close>

theorem frame_exception_escapes_witness:
  "snd (decodeUpdatePacket demo_lib
          [1, 1, 0, 0, 0, 0, 0, 1, 120, 2, 1, 0, 0, 0, 0, 0, 2, 123, 125]) \<noteq> Inr None
   \<and> snd (onMessage demo_lib one_camera
          [1, 1, 0, 0, 0, 0, 0, 1, 120, 2, 1, 0, 0, 0, 0, 0, 2, 123, 125]) = Inl SyntaxError"
  using frame_exception_escapes [of one_camera] by simp

section \<open>Rejections of the frame decoder\<close>

lemma decodeUpdateFrame_type_mismatch:
  "packet \<noteq> [] \<Longrightarrow> unat (packet ! 0) \<noteq> ty \<Longrightarrow> decodeUpdateFrame lib packet ty = ([], Inr JNull)"
  by (auto simp: decodeUpdateFrame_def readUInt8_def)

lemma decodeUpdateFrame_action_format:
  "3 \<le> length packet \<Longrightarrow> unat (packet ! 1) \<noteq> 1
   \<Longrightarrow> frame_body lib packet (unat (packet ! 2)) = Inr body
   \<Longrightarrow> decodeUpdateFrame lib packet 1 = ([], Inr JNull)"
  by (auto simp: decodeUpdateFrame_def readUInt8_def)

lemma decodeUpdateFrame_unknown_format:
  "3 \<le> length packet \<Longrightarrow> unat (packet ! 0) = ty \<Longrightarrow> ty \<noteq> 1 \<Longrightarrow> unat (packet ! 1) \<notin> {1, 2, 3}
   \<Longrightarrow> frame_body lib packet (unat (packet ! 2)) = Inr body
   \<Longrightarrow> decodeUpdateFrame lib packet ty = ([UnknownPayloadType (unat (packet ! 1))], Inr JNull)"
  by (auto simp: decodeUpdateFrame_def readUInt8_def)

lemma decodeUpdateFrame_logs_only_unknown:
  assumes "fst (decodeUpdateFrame lib packet ty) \<noteq> []"
  shows "3 \<le> length packet \<and> unat (packet ! 0) = ty \<and> ty \<noteq> 1 \<and> unat (packet ! 1) \<notin> {1, 2, 3}
         \<and> decodeUpdateFrame lib packet ty = ([UnknownPayloadType (unat (packet ! 1))], Inr JNull)"
  using assms
  by (auto simp: decodeUpdateFrame_def readUInt8_def split: sum.splits if_splits)

text \<open>
  So a frame of at least three bytes with a wrong format tag decodes to \<^verbatim>\<open>null\<close>, and
  one with an unknown tag writes the diagnostic, whenever the frame's body is raw or
  inflates. The inflate comes first, though, and what it throws is not caught.
\<close>

lemma frame_wrong_format_not_zlib:
  "decodeUpdateFrame demo_lib [1, 2, 1, 0, 0, 0, 0, 0] (Suc 0) = ([], Inl ZlibError)"
  by (simp add: decodeUpdateFrame_def readUInt8_def frame_body_def
        UPDATE_PACKET_HEADER_SIZE_def demo_lib_def stored_inflate_def)

text \<open>
  Claim C8 at two frames of eight bytes whose compression flag is set over an empty
  body: an action frame with format tag 2 and a payload frame with format tag 9. The
  claim has both decode to \<^verbatim>\<open>null\<close>, the second with the unknown-payload diagnostic;
  \<^verbatim>\<open>zlib.inflateSync\<close> throws before the format tag is looked at, nothing is written,
  and the exception leaves \<open>decodeUpdateFrame\<close> and, for a packet that starts with the
  first frame, \<open>decodeUpdatePacket\<close>.
\<close>

theorem decodeUpdateFrame_inflate_escapes:
  "decodeUpdateFrame demo_lib [1, 2, 1, 0, 0, 0, 0, 0] 1 = ([], Inl ZlibError)
   \<and> decodeUpdateFrame demo_lib [2, 9, 1, 0, 0, 0, 0, 0] 2 = ([], Inl ZlibError)
   \<and> decodeUpdatePacket demo_lib [1, 2, 1, 0, 0, 0, 0, 0, 2, 1, 0, 0, 0, 0, 0, 2, 123, 125]
       = ([], Inl ZlibError)"
proof -
  have off: "packet_offset [1, 2, 1, 0, 0, 0, 0, 0, 2, 1, 0, 0, 0, 0, 0, 2, 123, 125] = Inr 8"
    by (simp add: packet_offset_def readUInt32BE_def UPDATE_PACKET_HEADER_SIZE_def)
  have p: "decodeUpdatePacket demo_lib
             [1, 2, 1, 0, 0, 0, 0, 0, 2, 1, 0, 0, 0, 0, 0, 2, 123, 125] = ([], Inl ZlibError)"
    by (simp add: decodeUpdatePacket_def off frame_wrong_format_not_zlib)
  have f: "decodeUpdateFrame demo_lib [2, 9, 1, 0, 0, 0, 0, 0] 2 = ([], Inl ZlibError)"
    by (simp add: decodeUpdateFrame_def readUInt8_def frame_body_def
          UPDATE_PACKET_HEADER_SIZE_def demo_lib_def stored_inflate_def)
  show ?thesis
    using frame_wrong_format_not_zlib p f by simp
qed

text \<open>Neither frame decodes to \<^verbatim>\<open>null\<close>, and the second writes no diagnostic.\<close>

theorem decodeUpdateFrame_inflate_escapes_witness:
  "snd (decodeUpdateFrame demo_lib [1, 2, 1, 0, 0, 0, 0, 0] 1) \<noteq> Inr JNull
   \<and> snd (decodeUpdateFrame demo_lib [2, 9, 1, 0, 0, 0, 0, 0] 2) \<noteq> Inr JNull
   \<and> fst (decodeUpdateFrame demo_lib [2, 9, 1, 0, 0, 0, 0, 0] 2) = []"
  using decodeUpdateFrame_inflate_escapes by simp

section \<open>The router's filter\<close>

lemma get_prop_truthy: "truthy v \<Longrightarrow> get_prop v k = Inr (lookup_prop v k)"
  by (cases v) (simp_all add: get_prop_def)

lemma route_truthy:
  assumes "truthy (action p)" "truthy (payload p)"
  shows "route reg p =
           Inr (if lookup_prop (action p) ''action'' = JStr ''update''
                   \<and> lookup_prop (action p) ''modelKey'' = JStr ''camera''
                   \<and> \<not> truthy (lookup_prop (payload p) ''stats'')
                then (case reg (lookup_prop (action p) ''id'') of
                        None \<Rightarrow> []
                      | Some d \<Rightarrow> [Forward d (payload p)])
                else [])"
  using assms by (simp add: route_def get_prop_truthy split: option.splits)

lemma decoded_truthy:
  assumes "decodeUpdatePacket lib ev = (d, Inr (Some p))"
  shows "truthy (action p) \<and> truthy (payload p)"
  using assms
  by (auto simp: decodeUpdatePacket_def split: sum.splits prod.splits if_splits)

text \<open>
  Claim C2, amended: for a decoded packet whose action is \<^verbatim>\<open>update\<close> with modelKey
  \<^verbatim>\<open>camera\<close>, the router discards the packet without a forwarding call when the
  payload's \<^verbatim>\<open>stats\<close> property is truthy; the decision is a truthiness test of the
  value, so a \<^verbatim>\<open>stats\<close> of 0, false, null or the empty string is treated like an absent
  one and the packet goes on to the registry lookup.
\<close>

theorem stats_truthiness_decides:
  assumes "lookup_prop (action p) ''action'' = JStr ''update''"
    and "lookup_prop (action p) ''modelKey'' = JStr ''camera''"
    and "truthy (action p)" and "truthy (payload p)"
  shows "route reg p =
           Inr (if truthy (lookup_prop (payload p) ''stats'') then []
                else (case reg (lookup_prop (action p) ''id'') of
                        None \<Rightarrow> []
                      | Some d \<Rightarrow> [Forward d (payload p)]))"
  using assms by (simp add: route_truthy)

theorem stats_truthiness_decides_witness:
  "route one_camera
     \<lparr>action = JObj [(''action'', JStr ''update''), (''modelKey'', JStr ''camera''),
                     (''id'', JStr ''cam1'')],
      payload = JObj [(''stats'', JNum 1)]\<rparr> = Inr []
   \<and> route one_camera
     \<lparr>action = JObj [(''action'', JStr ''update''), (''modelKey'', JStr ''camera''),
                     (''id'', JStr ''cam1'')],
      payload = JObj [(''stats'', JStr [])]\<rparr> = Inr [Forward 0 (JObj [(''stats'', JStr [])])]"
  using stats_truthiness_decides [of
      "\<lparr>action = JObj [(''action'', JStr ''update''), (''modelKey'', JStr ''camera''),
                      (''id'', JStr ''cam1'')],
        payload = JObj [(''stats'', JNum 1)]\<rparr>" one_camera]
    stats_truthiness_decides [of
      "\<lparr>action = JObj [(''action'', JStr ''update''), (''modelKey'', JStr ''camera''),
                      (''id'', JStr ''cam1'')],
        payload = JObj [(''stats'', JStr [])]\<rparr>" one_camera]
  by (simp add: one_camera_def)

text \<open>
  A camera update whose payload is \<^verbatim>\<open>{"stats":0}\<close>, a payload frame the decoder
  accepts: the \<^verbatim>\<open>stats\<close> key is present, and the packet is forwarded.
\<close>

lemma ascii_stats_zero:
  \<open>ascii_toString [123, 34, 115, 116, 97, 116, 115, 34, 58, 48, 125] = ''{"stats":0}''\<close>
  by code_simp

theorem stats_zero_forwarded_counterexample:
  "decodeUpdateFrame demo_lib
     [2, 1, 0, 0, 0, 0, 0, 11, 123, 34, 115, 116, 97, 116, 115, 34, 58, 48, 125] 2
     = ([], Inr (JObj [(''stats'', JNum 0)]))
   \<and> route one_camera
        \<lparr>action = JObj [(''action'', JStr ''update''), (''modelKey'', JStr ''camera''),
                        (''id'', JStr ''cam1'')],
         payload = JObj [(''stats'', JNum 0)]\<rparr>
       = Inr [Forward 0 (JObj [(''stats'', JNum 0)])]"
  by (simp add: decodeUpdateFrame_def readUInt8_def frame_body_def parse_json_def
        UPDATE_PACKET_HEADER_SIZE_def demo_lib_def ascii_stats_zero table_parse_def
        json_table_def route_def get_prop_def one_camera_def)

text \<open>
  Claim C6, amended: for every successfully decoded packet the \<^verbatim>\<open>message\<close> listener
  makes exactly one forwarding call, with the raw payload and the device the registry
  resolves \<^verbatim>\<open>action.id\<close> to, when \<^verbatim>\<open>action.action\<close> is \<^verbatim>\<open>update\<close>, \<^verbatim>\<open>action.modelKey\<close>
  is \<^verbatim>\<open>camera\<close>, the payload's \<^verbatim>\<open>stats\<close> property is falsy (absent included) and the
  registry knows the id; in every other case it makes no call. Either way it throws
  nothing and writes no diagnostic of its own.
\<close>

theorem router_filter:
  assumes "decodeUpdatePacket lib ev = (d, Inr (Some p))"
  shows "onMessage lib reg ev =
           (d, Inr (if lookup_prop (action p) ''action'' = JStr ''update''
                       \<and> lookup_prop (action p) ''modelKey'' = JStr ''camera''
                       \<and> \<not> truthy (lookup_prop (payload p) ''stats'')
                    then (case reg (lookup_prop (action p) ''id'') of
                            None \<Rightarrow> []
                          | Some dev \<Rightarrow> [Forward dev (payload p)])
                    else []))"
  using decoded_truthy [OF assms] route_truthy [of p reg]
  by (simp add: onMessage_def assms)

text \<open>A camera update whose payload is \<^verbatim>\<open>{"stats":false}\<close> is forwarded.\<close>

theorem stats_false_forwarded_counterexample:
  "route one_camera
     \<lparr>action = JObj [(''action'', JStr ''update''), (''modelKey'', JStr ''camera''),
                     (''id'', JStr ''cam1'')],
      payload = JObj [(''stats'', JBool False)]\<rparr>
   = Inr [Forward 0 (JObj [(''stats'', JBool False)])]"
  by (simp add: route_def get_prop_def one_camera_def)


text \<open>
  The packet of a camera update for \<^verbatim>\<open>cam1\<close> with the payload \<^verbatim>\<open>{}\<close>, decoded and routed.
\<close>

lemma ascii_camera_update:
  \<open>ascii_toString
     [123, 34, 97, 99, 116, 105, 111, 110, 34, 58, 34, 117, 112, 100, 97, 116, 101, 34,
      44, 34, 109, 111, 100, 101, 108, 75, 101, 121, 34, 58, 34, 99, 97, 109, 101, 114,
      97, 34, 44, 34, 105, 100, 34, 58, 34, 99, 97, 109, 49, 34, 125]
   = ''{"action":"update","modelKey":"camera","id":"cam1"}''\<close>
  by code_simp

lemma frame_camera_update:
  "decodeUpdateFrame demo_lib
     [1, 1, 0, 0, 0, 0, 0, 51, 123, 34, 97, 99, 116, 105, 111, 110, 34, 58, 34, 117,
      112, 100, 97, 116, 101, 34, 44, 34, 109, 111, 100, 101, 108, 75, 101, 121, 34,
      58, 34, 99, 97, 109, 101, 114, 97, 34, 44, 34, 105, 100, 34, 58, 34, 99, 97, 109,
      49, 34, 125]
     (Suc 0)
   = ([], Inr camera_update)"
  by (simp add: decodeUpdateFrame_def readUInt8_def frame_body_def parse_json_def
        UPDATE_PACKET_HEADER_SIZE_def demo_lib_def ascii_camera_update table_parse_def
        json_table_def camera_update_def)

lemma packet_camera_update:
  "decodeUpdatePacket demo_lib
     [1, 1, 0, 0, 0, 0, 0, 51, 123, 34, 97, 99, 116, 105, 111, 110, 34, 58, 34, 117,
      112, 100, 97, 116, 101, 34, 44, 34, 109, 111, 100, 101, 108, 75, 101, 121, 34,
      58, 34, 99, 97, 109, 101, 114, 97, 34, 44, 34, 105, 100, 34, 58, 34, 99, 97, 109,
      49, 34, 125, 2, 1, 0, 0, 0, 0, 0, 2, 123, 125]
   = ([], Inr (Some \<lparr>action = camera_update, payload = JObj []\<rparr>))"
proof -
  have off: "packet_offset
     [1, 1, 0, 0, 0, 0, 0, 51, 123, 34, 97, 99, 116, 105, 111, 110, 34, 58, 34, 117,
      112, 100, 97, 116, 101, 34, 44, 34, 109, 111, 100, 101, 108, 75, 101, 121, 34,
      58, 34, 99, 97, 109, 101, 114, 97, 34, 44, 34, 105, 100, 34, 58, 34, 99, 97, 109,
      49, 34, 125, 2, 1, 0, 0, 0, 0, 0, 2, 123, 125]
     = Inr 59"
    by (simp add: packet_offset_def readUInt32BE_def UPDATE_PACKET_HEADER_SIZE_def)
  have fp: "decodeUpdateFrame demo_lib [2, 1, 0, 0, 0, 0, 0, 2, 123, 125] 2 = ([], Inr (JObj []))"
    by (simp add: decodeUpdateFrame_def readUInt8_def frame_body_def parse_json_def
          UPDATE_PACKET_HEADER_SIZE_def demo_lib_def ascii_braces table_parse_def json_table_def)
  show ?thesis
    by (simp add: decodeUpdatePacket_def off frame_camera_update fp camera_update_def)
qed

theorem router_filter_witness:
  "onMessage demo_lib one_camera
     [1, 1, 0, 0, 0, 0, 0, 51, 123, 34, 97, 99, 116, 105, 111, 110, 34, 58, 34, 117,
      112, 100, 97, 116, 101, 34, 44, 34, 109, 111, 100, 101, 108, 75, 101, 121, 34,
      58, 34, 99, 97, 109, 101, 114, 97, 34, 44, 34, 105, 100, 34, 58, 34, 99, 97, 109,
      49, 34, 125, 2, 1, 0, 0, 0, 0, 0, 2, 123, 125]
   = ([], Inr [Forward 0 (JObj [])])"
  using router_filter [OF packet_camera_update, of one_camera]
  by (simp add: camera_update_def one_camera_def)

section \<open>Reachable states of the lifecycle\<close>

lemma wf_init: "wf_conn (init_conn c)"
  by (simp add: wf_conn_def init_conn_def)

lemma wf_emit: "wf_conn (emit e s) = wf_conn s"
  by (auto simp: wf_conn_def emit_def split: ref.splits)

lemma wf_timeouts: "wf_conn (s\<lparr>timeouts := n\<rparr>) = wf_conn s"
  by (auto simp: wf_conn_def split: ref.splits)

lemma wf_launch: "wf_conn s \<Longrightarrow> wf_conn (snd (launchUpdatesListener r s))"
  by (cases r) (auto simp: wf_conn_def launchUpdatesListener_def emit_def Let_def split: ref.splits)

lemma wf_configure: "wf_conn s \<Longrightarrow> wf_conn (configureUpdatesListener s)"
  by (auto simp: wf_conn_def configureUpdatesListener_def split: ref.splits)

lemma wf_disconnect: "wf_conn s \<Longrightarrow> wf_conn (disconnectEventListener s)"
  by (auto simp: wf_conn_def disconnectEventListener_def emit_def split: ref.splits)

lemma wf_waitForBootstrap: "wf_conn s \<Longrightarrow> wf_conn (waitForBootstrap r s)"
proof -
  assume a: "wf_conn s"
  show ?thesis
  proof (cases "lastUpdateId s")
    case True
    have "wf_conn (emit (Debug LogCalledWaitForBootstrap) s)" using a by (simp add: wf_emit)
    then show ?thesis using True
      by (simp add: waitForBootstrap_def wf_launch wf_configure)
  next
    case False
    then show ?thesis using a
      by (auto simp: waitForBootstrap_def wf_conn_def emit_def split: ref.splits)
  qed
qed

lemma wf_reconnect: "wf_conn s \<Longrightarrow> wf_conn (reconnectUpdatesListener r s)"
  by (simp add: reconnectUpdatesListener_def wf_waitForBootstrap wf_disconnect wf_emit)

lemma wf_emits: "wf_conn (emits es s) = wf_conn s"
  by (auto simp: wf_conn_def emits_def split: ref.splits)

lemma wf_sendPingPong: "wf_conn s \<Longrightarrow> wf_conn (sendPingPongMessage b s)"
  by (auto simp: sendPingPongMessage_def wf_emit split: ref.splits)

lemma wf_close_cleared:
  assumes "wf_conn s" "w \<in> set (live s)"
  shows "wf_conn (emit (Status Disconnected)
           (clearInterval (pingPong (s\<lparr>live := removeAll w (live s)\<rparr>))
              (s\<lparr>live := removeAll w (live s), eventListener := Undefined,
                 eventListenerConfigured := False\<rparr>)))"
  using assms
  by (auto simp: wf_conn_def emit_def clearInterval_def split: ref.splits)

lemma wf_on_close:
  assumes "wf_conn s" "w \<in> set (live s)"
  shows "wf_conn (on_close r (s\<lparr>live := removeAll w (live s)\<rparr>))"
  using wf_close_cleared [OF assms] by (simp add: on_close_def wf_reconnect)

lemma wf_step: "wf_conn s \<Longrightarrow> step e s = Some s' \<Longrightarrow> wf_conn s'"
proof (cases e)
  case (SockClose w r)
  assume "wf_conn s" "step e s = Some s'"
  then show ?thesis using SockClose wf_on_close [of s w r] by (auto split: if_splits)
next
  case (Bootstrap b)
  assume "wf_conn s" "step e s = Some s'"
  then show ?thesis using Bootstrap by (auto simp: wf_conn_def split: ref.splits)
qed (auto simp: wf_launch wf_configure wf_disconnect wf_reconnect wf_waitForBootstrap
       wf_sendPingPong wf_emit wf_emits on_open_def on_pong_def on_message_def on_error_def Let_def
       wf_timeouts
     split: if_splits)

lemma wf_run: "wf_conn s \<Longrightarrow> run es s = Some s' \<Longrightarrow> wf_conn s'"
proof (induction es arbitrary: s)
  case Nil
  then show ?case by simp
next
  case (Cons e es)
  then show ?case by (auto split: option.splits dest: wf_step)
qed

section \<open>A closed socket gets no heartbeat\<close>

lemma silent_forI:
  assumes "retired w s'" "effects s' = effects s @ new" "SocketSend w \<notin> set new"
  shows "silent_for w s s'"
  using assms by (simp add: silent_for_def effects_since_def)

lemma silent_forD:
  assumes "silent_for w s s'"
  obtains new where "retired w s'" "effects s' = effects s @ new" "SocketSend w \<notin> set new"
proof -
  from assms have "effects s' = effects s @ effects_since s s'"
    unfolding silent_for_def effects_since_def
    by (metis append_take_drop_id)
  with assms show ?thesis using that by (simp add: silent_for_def)
qed

lemma silent_refl: "retired w s \<Longrightarrow> silent_for w s s"
  by (rule silent_forI [where new = "[]"]) simp_all

lemma silent_trans:
  assumes "silent_for w s s'" "silent_for w s' s''"
  shows "silent_for w s s''"
proof -
  from assms(1) obtain n1 where a: "effects s' = effects s @ n1" "SocketSend w \<notin> set n1"
    by (rule silent_forD)
  from assms(2) obtain n2 where b: "retired w s''" "effects s'' = effects s' @ n2"
    "SocketSend w \<notin> set n2"
    by (rule silent_forD)
  show ?thesis
    by (rule silent_forI [where new = "n1 @ n2"]) (use a b in simp_all)
qed

lemma silent_emit: "retired w s \<Longrightarrow> e \<noteq> SocketSend w \<Longrightarrow> silent_for w s (emit e s)"
  by (rule silent_forI [where new = "[e]"]) (simp_all add: retired_def emit_def)

lemma silent_launch: "retired w s \<Longrightarrow> silent_for w s (snd (launchUpdatesListener r s))"
proof (cases "truthy_ref (eventListener s)")
  case True
  assume "retired w s"
  then show ?thesis using True by (simp add: launchUpdatesListener_def silent_refl)
next
  case False
  assume a: "retired w s"
  show ?thesis
  proof (cases r)
    case Throws
    show ?thesis
      by (rule silent_forI [where new = "[Debug LogUpdateListener, Status Connecting,
            Debug LogErrorConnecting, Status ErrorStatus]"])
        (use a False Throws in \<open>simp_all add: launchUpdatesListener_def retired_def emit_def\<close>)
  next
    case ReturnsFalsy
    show ?thesis
      by (rule silent_forI [where new = "[Debug LogUpdateListener, Status Connecting,
            Debug LogUnableToConnect]"])
        (use a False ReturnsFalsy in \<open>simp_all add: launchUpdatesListener_def retired_def emit_def\<close>)
  next
    case ReturnsObject
    show ?thesis
      by (rule silent_forI [where new = "[Debug LogUpdateListener, Status Connecting,
            NewSocket (next_id s), SetInterval (next_id s + 1)]"])
        (use a False ReturnsObject in
          \<open>auto simp: launchUpdatesListener_def retired_def emit_def Let_def\<close>)
  qed
qed

lemma silent_configure: "retired w s \<Longrightarrow> silent_for w s (configureUpdatesListener s)"
  by (rule silent_forI [where new = "[]"])
    (auto simp: configureUpdatesListener_def retired_def split: ref.splits)

lemma silent_disconnect: "retired w s \<Longrightarrow> silent_for w s (disconnectEventListener s)"
proof (cases "eventListener s")
  case (Obj v)
  assume "retired w s"
  then show ?thesis using Obj
    by (intro silent_forI [where new = "[Debug LogTerminate, SocketClose v]"])
      (simp_all add: disconnectEventListener_def retired_def emit_def)
qed (auto intro!: silent_forI [where new = "[]"] simp: disconnectEventListener_def retired_def)

lemma silent_waitForBootstrap: "retired w s \<Longrightarrow> silent_for w s (waitForBootstrap r s)"
proof (cases "lastUpdateId s")
  case True
  assume a: "retired w s"
  let ?s1 = "emit (Debug LogCalledWaitForBootstrap) s"
  let ?s2 = "snd (launchUpdatesListener r ?s1)"
  have 1: "silent_for w s ?s1" using a by (simp add: silent_emit)
  then have r1: "retired w ?s1" by (simp add: silent_for_def)
  have 2: "silent_for w ?s1 ?s2" using r1 by (rule silent_launch)
  then have r2: "retired w ?s2" by (simp add: silent_for_def)
  have 3: "silent_for w ?s2 (configureUpdatesListener ?s2)" using r2 by (rule silent_configure)
  show ?thesis
    using silent_trans [OF silent_trans [OF 1 2] 3] True by (simp add: waitForBootstrap_def)
next
  case False
  assume a: "retired w s"
  show ?thesis
    by (rule silent_forI [where new = "[Debug LogCallingWaitForBootstrap, SetTimeout]"])
      (use a False in \<open>simp_all add: waitForBootstrap_def retired_def emit_def\<close>)
qed

lemma silent_reconnect: "retired w s \<Longrightarrow> silent_for w s (reconnectUpdatesListener r s)"
proof -
  assume a: "retired w s"
  let ?s1 = "emit (Debug LogReconnect) s"
  let ?s2 = "disconnectEventListener ?s1"
  have 1: "silent_for w s ?s1" using a by (simp add: silent_emit)
  then have r1: "retired w ?s1" by (simp add: silent_for_def)
  have 2: "silent_for w ?s1 ?s2" using r1 by (rule silent_disconnect)
  then have r2: "retired w ?s2" by (simp add: silent_for_def)
  have 3: "silent_for w ?s2 (waitForBootstrap r ?s2)" using r2 by (rule silent_waitForBootstrap)
  show ?thesis
    using silent_trans [OF silent_trans [OF 1 2] 3] by (simp add: reconnectUpdatesListener_def)
qed

lemma silent_sendPingPong: "retired w s \<Longrightarrow> silent_for w s (sendPingPongMessage b s)"
proof (cases "eventListener s")
  case (Obj v)
  assume a: "retired w s"
  show ?thesis
  proof (cases b)
    case True
    then show ?thesis using a Obj by (simp add: sendPingPongMessage_def silent_emit)
  next
    case False
    then show ?thesis using a Obj
      by (intro silent_forI [where new = "[SocketSend v, Debug LogPing]"])
        (auto simp: sendPingPongMessage_def retired_def emit_def)
  qed
next
  case Null
  assume "retired w s"
  then show ?thesis using Null by (simp add: sendPingPongMessage_def silent_refl)
next
  case Undefined
  assume "retired w s"
  then show ?thesis using Undefined by (simp add: sendPingPongMessage_def silent_emit)
qed

lemma retired_of_silent: "silent_for w s s' \<Longrightarrow> retired w s'"
  by (simp add: silent_for_def)

lemma silent_emit2:
  "retired w s \<Longrightarrow> e \<noteq> SocketSend w \<Longrightarrow> e' \<noteq> SocketSend w \<Longrightarrow> silent_for w s (emit e' (emit e s))"
  by (rule silent_forI [where new = "[e, e']"]) (simp_all add: retired_def emit_def)

lemma silent_on_error: "retired w s \<Longrightarrow> silent_for w s (on_error expected s)"
proof (cases expected)
  case True
  assume "retired w s"
  then show ?thesis using True by (simp add: on_error_def silent_emit2)
next
  case False
  assume a: "retired w s"
  show ?thesis
    by (rule silent_forI [where new = "[Debug LogError, Debug LogHostError, Status ErrorStatus]"])
      (use a False in \<open>simp_all add: on_error_def retired_def emit_def\<close>)
qed

lemma silent_on_message:
  "retired w s \<Longrightarrow> silent_for w s (emits (replicate n (RouterRuns v)) (on_message s))"
  by (rule silent_forI [where new = "LastMessage # replicate n (RouterRuns v)"])
    (auto simp: on_message_def retired_def emit_def emits_def)

text \<open>The part of the \<^verbatim>\<open>close\<close> listener before \<^verbatim>\<open>reconnectUpdatesListener\<close>.\<close>

lemma close_prefix:
  assumes "wf_conn s" "w \<in> set (live s)"
  defines "s0 \<equiv> emit (Status Disconnected)
           (clearInterval (pingPong (s\<lparr>live := removeAll w (live s)\<rparr>))
              (s\<lparr>live := removeAll w (live s), eventListener := Undefined,
                 eventListenerConfigured := False\<rparr>))"
  shows "eventListener s = Obj w" "pingPong s = Obj (w + 1)" "intervals s = [w + 1]"
    "effects s0 = effects s @ [ClearInterval (Obj (w + 1)), Status Disconnected]"
    "intervals s0 = []" "retired w s0"
  using assms(1,2) unfolding s0_def
  by (auto simp: wf_conn_def emit_def clearInterval_def retired_def split: ref.splits)

lemma reconnect_effects:
  "\<exists>rest. effects (reconnectUpdatesListener r s) = effects s @ Debug LogReconnect # rest"
  by (cases r; cases "eventListener s")
    (simp_all add: reconnectUpdatesListener_def disconnectEventListener_def waitForBootstrap_def
      launchUpdatesListener_def configureUpdatesListener_def emit_def Let_def)

lemma silent_step_other:
  assumes "retired w s" "step e s = Some s'" "\<forall>v r. e \<noteq> SockClose v r"
  shows "silent_for w s s'"
proof (cases e)
  case (Bootstrap b)
  then show ?thesis using assms
    by (auto intro!: silent_forI [where new = "[]"] simp: retired_def)
next
  case (PollTimeout r)
  have "retired w (s\<lparr>timeouts := timeouts s - 1\<rparr>)"
    using assms(1) by (simp add: retired_def)
  from silent_waitForBootstrap [OF this, of r] have
    "silent_for w s (waitForBootstrap r (s\<lparr>timeouts := timeouts s - 1\<rparr>))"
    by (simp add: silent_for_def effects_since_def)
  then show ?thesis using assms PollTimeout by (auto split: if_splits)
next
  case (SockClose v r)
  then show ?thesis using assms by simp
qed (use assms in \<open>auto simp: silent_launch silent_configure silent_disconnect silent_reconnect
       silent_waitForBootstrap silent_sendPingPong silent_on_error silent_on_message
       silent_emit2 on_open_def on_pong_def split: if_splits\<close>)


lemma silent_step_close:
  assumes wf: "wf_conn s" and ret: "retired w s" and st: "step (SockClose v r) s = Some s'"
  shows "silent_for w s s'"
proof -
  from st have v: "v \<in> set (live s)" and s': "s' = on_close r (s\<lparr>live := removeAll v (live s)\<rparr>)"
    by (auto split: if_splits)
  define s0 where "s0 = emit (Status Disconnected)
           (clearInterval (pingPong (s\<lparr>live := removeAll v (live s)\<rparr>))
              (s\<lparr>live := removeAll v (live s), eventListener := Undefined,
                 eventListenerConfigured := False\<rparr>))"
  have e0: "effects s0 = effects s @ [ClearInterval (Obj (v + 1)), Status Disconnected]"
    using close_prefix(4) [OF wf v] by (simp add: s0_def)
  have r0: "retired w s0"
    using ret by (auto simp: s0_def retired_def emit_def clearInterval_def split: ref.splits)
  have 1: "silent_for w s s0"
    by (rule silent_forI [OF r0 e0]) simp
  have 2: "silent_for w s0 (reconnectUpdatesListener r s0)"
    using r0 by (rule silent_reconnect)
  have "s' = reconnectUpdatesListener r s0"
    by (simp add: s' on_close_def s0_def)
  then show ?thesis using silent_trans [OF 1 2] by simp
qed

lemma silent_step:
  assumes "wf_conn s" "retired w s" "step e s = Some s'"
  shows "silent_for w s s'"
proof (cases "\<exists>v r. e = SockClose v r")
  case True
  then show ?thesis using assms silent_step_close by blast
next
  case False
  then show ?thesis using assms silent_step_other by blast
qed

lemma silent_run:
  "wf_conn s \<Longrightarrow> retired w s \<Longrightarrow> run es s = Some s' \<Longrightarrow> silent_for w s s'"
proof (induction es arbitrary: s)
  case Nil
  then show ?case by (simp add: silent_refl)
next
  case (Cons e es)
  from Cons.prems obtain s1 where 1: "step e s = Some s1" and 2: "run es s1 = Some s'"
    by (auto split: option.splits)
  have a: "silent_for w s s1" using Cons.prems(1,2) 1 by (rule silent_step)
  have b: "silent_for w s1 s'"
    using wf_step [OF Cons.prems(1) 1] retired_of_silent [OF a] 2 by (rule Cons.IH)
  show ?case using a b by (rule silent_trans)
qed

text \<open>What the \<^verbatim>\<open>close\<close> event of the listener's socket does.\<close>

lemma close_event:
  assumes wf: "wf_conn s" and st: "step (SockClose w r) s = Some s1"
  shows "eventListener s = Obj w" "intervals s = [w + 1]"
    "take 3 (effects_since s s1) = [ClearInterval (Obj (w + 1)), Status Disconnected, Debug LogReconnect]"
    "silent_for w s s1"
proof -
  from st have w: "w \<in> set (live s)" and s1: "s1 = on_close r (s\<lparr>live := removeAll w (live s)\<rparr>)"
    by (auto split: if_splits)
  define s0 where "s0 = emit (Status Disconnected)
           (clearInterval (pingPong (s\<lparr>live := removeAll w (live s)\<rparr>))
              (s\<lparr>live := removeAll w (live s), eventListener := Undefined,
                 eventListenerConfigured := False\<rparr>))"
  note p = close_prefix [OF wf w, folded s0_def]
  show "eventListener s = Obj w" "intervals s = [w + 1]" using p by simp_all
  have eq: "s1 = reconnectUpdatesListener r s0"
    by (simp add: s1 on_close_def s0_def)
  obtain rest where "effects s1 = effects s0 @ Debug LogReconnect # rest"
    using reconnect_effects [of r s0] eq by auto
  then show "take 3 (effects_since s s1)
             = [ClearInterval (Obj (w + 1)), Status Disconnected, Debug LogReconnect]"
    using p(4) by (simp add: effects_since_def)
  have 1: "silent_for w s s0"
    by (rule silent_forI [OF p(6) p(4)]) simp
  have 2: "silent_for w s0 (reconnectUpdatesListener r s0)"
    using p(6) by (rule silent_reconnect)
  show "silent_for w s s1" using silent_trans [OF 1 2] eq by simp
qed

text \<open>
  Claim C7: when the socket \<open>w\<close> of a reachable state emits \<^verbatim>\<open>close\<close>, it is the listener
  and its heartbeat timer \<open>w + 1\<close> is the one running; the listener's first effect is to
  cancel that timer, then it reports the disconnection, and only then does the
  reconnection start. Whatever happens afterwards, the timer does not run, so its tick
  cannot occur, and nothing is sent to \<open>w\<close> any more.
\<close>

theorem heartbeat_cancelled_on_close:
  assumes reach: "run es (init_conn c) = Some s"
    and close: "step (SockClose w r) s = Some s1"
    and later: "run es' s1 = Some s2"
  shows "eventListener s = Obj w \<and> intervals s = [w + 1]
         \<and> take 3 (effects_since s s1)
             = [ClearInterval (Obj (w + 1)), Status Disconnected, Debug LogReconnect]
         \<and> w + 1 \<notin> set (intervals s2)
         \<and> step (Tick (w + 1) sendThrows) s2 = None
         \<and> SocketSend w \<notin> set (effects_since s s2)"
proof -
  have wf: "wf_conn s" using wf_init reach by (rule wf_run)
  note c = close_event [OF wf close]
  have wf1: "wf_conn s1" using wf close by (rule wf_step)
  have wf2: "wf_conn s2" using wf1 later by (rule wf_run)
  have sil: "silent_for w s1 s2"
    using wf1 retired_of_silent [OF c(4)] later by (rule silent_run)
  have all: "silent_for w s s2" using c(4) sil by (rule silent_trans)
  have ret: "retired w s2" using sil by (rule retired_of_silent)
  have no: "w + 1 \<notin> set (intervals s2)"
    using wf2 ret by (auto simp: wf_conn_def retired_def split: ref.splits)
  show ?thesis
    using c(1,2,3) no all by (simp add: silent_for_def)
qed

lemmas lifecycle_defs =
  init_conn_def emit_def launchUpdatesListener_def configureUpdatesListener_def
  disconnectEventListener_def waitForBootstrap_def reconnectUpdatesListener_def
  sendPingPongMessage_def clearInterval_def on_close_def Let_def emits_def

lemma run_open:
  "run [WaitForBootstrap ReturnsObject] (init_conn True) =
     Some \<lparr>eventListener = Obj 0, eventListenerConfigured = True, pingPong = Obj 1,
            lastUpdateId = True, intervals = [1], timeouts = 0, live = [0], routed = [0],
            next_id = 2,
            effects = [Debug LogCalledWaitForBootstrap, Debug LogUpdateListener,
                       Status Connecting, NewSocket 0, SetInterval 1]\<rparr>"
  by (simp add: lifecycle_defs)

lemma step_close:
  "step (SockClose 0 ReturnsObject)
     \<lparr>eventListener = Obj 0, eventListenerConfigured = True, pingPong = Obj 1,
      lastUpdateId = True, intervals = [1], timeouts = 0, live = [0], routed = [0],
      next_id = 2,
      effects = [Debug LogCalledWaitForBootstrap, Debug LogUpdateListener,
                 Status Connecting, NewSocket 0, SetInterval 1]\<rparr> =
     Some \<lparr>eventListener = Obj 2, eventListenerConfigured = True, pingPong = Obj 3,
            lastUpdateId = True, intervals = [3], timeouts = 0, live = [2], routed = [2, 0],
            next_id = 4,
            effects = [Debug LogCalledWaitForBootstrap, Debug LogUpdateListener,
                       Status Connecting, NewSocket 0, SetInterval 1,
                       ClearInterval (Obj 1), Status Disconnected, Debug LogReconnect,
                       Debug LogCalledWaitForBootstrap, Debug LogUpdateListener,
                       Status Connecting, NewSocket 2, SetInterval 3]\<rparr>"
  by (simp add: lifecycle_defs)

lemma run_tick:
  "run [Tick 3 False]
     \<lparr>eventListener = Obj 2, eventListenerConfigured = True, pingPong = Obj 3,
      lastUpdateId = True, intervals = [3], timeouts = 0, live = [2], routed = [2, 0],
      next_id = 4,
      effects = [Debug LogCalledWaitForBootstrap, Debug LogUpdateListener,
                 Status Connecting, NewSocket 0, SetInterval 1,
                 ClearInterval (Obj 1), Status Disconnected, Debug LogReconnect,
                 Debug LogCalledWaitForBootstrap, Debug LogUpdateListener,
                 Status Connecting, NewSocket 2, SetInterval 3]\<rparr> =
     Some \<lparr>eventListener = Obj 2, eventListenerConfigured = True, pingPong = Obj 3,
            lastUpdateId = True, intervals = [3], timeouts = 0, live = [2], routed = [2, 0],
            next_id = 4,
            effects = [Debug LogCalledWaitForBootstrap, Debug LogUpdateListener,
                       Status Connecting, NewSocket 0, SetInterval 1,
                       ClearInterval (Obj 1), Status Disconnected, Debug LogReconnect,
                       Debug LogCalledWaitForBootstrap, Debug LogUpdateListener,
                       Status Connecting, NewSocket 2, SetInterval 3,
                       SocketSend 2, Debug LogPing]\<rparr>"
  by (simp add: lifecycle_defs)

text \<open>
  A connection is opened, closes and is replaced; the timer 3 of the new socket 2
  ticks, the timer 1 of the closed socket 0 cannot.
\<close>

theorem heartbeat_cancelled_on_close_witness:
  "run [WaitForBootstrap ReturnsObject, SockClose 0 ReturnsObject, Tick 3 False] (init_conn True)
     \<noteq> None
   \<and> step (Tick 1 False)
        (the (run [WaitForBootstrap ReturnsObject, SockClose 0 ReturnsObject, Tick 3 False]
                (init_conn True))) = None
   \<and> SocketSend 0 \<notin> set (effects
        (the (run [WaitForBootstrap ReturnsObject, SockClose 0 ReturnsObject, Tick 3 False]
                (init_conn True))))"
proof -
  note h = heartbeat_cancelled_on_close [OF run_open step_close run_tick]
  have r: "run [WaitForBootstrap ReturnsObject, SockClose 0 ReturnsObject, Tick 3 False] (init_conn True)
           = Some \<lparr>eventListener = Obj 2, eventListenerConfigured = True, pingPong = Obj 3,
            lastUpdateId = True, intervals = [3], timeouts = 0, live = [2], routed = [2, 0],
            next_id = 4,
            effects = [Debug LogCalledWaitForBootstrap, Debug LogUpdateListener,
                       Status Connecting, NewSocket 0, SetInterval 1,
                       ClearInterval (Obj 1), Status Disconnected, Debug LogReconnect,
                       Debug LogCalledWaitForBootstrap, Debug LogUpdateListener,
                       Status Connecting, NewSocket 2, SetInterval 3,
                       SocketSend 2, Debug LogPing]\<rparr>"
    by (simp add: lifecycle_defs)
  show ?thesis
    using h unfolding r by (simp add: effects_since_def)
qed

section \<open>Connecting\<close>

text \<open>
  Claim C9: while a listener is held, \<open>launchUpdatesListener\<close> returns \<^verbatim>\<open>true\<close> and
  changes nothing: no socket is constructed, no timer started, no effect produced. So
  of two calls in succession from a state the module can reach, the second is such a
  no-op whenever the first left a listener, and exactly one socket is alive and exactly
  one heartbeat timer runs.
\<close>

theorem launch_idempotent:
  "(truthy_ref (eventListener s) \<longrightarrow> launchUpdatesListener r s = (True, s))
   \<and> (run es (init_conn c) = Some s0
        \<and> truthy_ref (eventListener (snd (launchUpdatesListener r1 s0)))
       \<longrightarrow> launchUpdatesListener r2 (snd (launchUpdatesListener r1 s0))
             = (True, snd (launchUpdatesListener r1 s0))
           \<and> length (live (snd (launchUpdatesListener r1 s0))) = 1
           \<and> length (intervals (snd (launchUpdatesListener r1 s0))) = 1)"
proof (intro conjI impI)
  assume "truthy_ref (eventListener s)"
  then show "launchUpdatesListener r s = (True, s)"
    by (simp add: launchUpdatesListener_def)
next
  assume a: "run es (init_conn c) = Some s0
             \<and> truthy_ref (eventListener (snd (launchUpdatesListener r1 s0)))"
  let ?s1 = "snd (launchUpdatesListener r1 s0)"
  have "wf_conn s0" using wf_init a by (blast intro: wf_run)
  then have wf1: "wf_conn ?s1" by (rule wf_launch)
  from a obtain w where w: "eventListener ?s1 = Obj w"
    by (cases "eventListener ?s1") auto
  show "launchUpdatesListener r2 ?s1 = (True, ?s1)"
    using a by (simp add: launchUpdatesListener_def)
  show "length (live ?s1) = 1" "length (intervals ?s1) = 1"
    using wf1 w by (simp_all add: wf_conn_def)
qed

theorem launch_idempotent_witness:
  "truthy_ref (eventListener (snd (launchUpdatesListener ReturnsObject (init_conn True))))
   \<and> launchUpdatesListener Throws (snd (launchUpdatesListener ReturnsObject (init_conn True)))
       = (True, snd (launchUpdatesListener ReturnsObject (init_conn True)))
   \<and> live (snd (launchUpdatesListener ReturnsObject (init_conn True))) = [0]
   \<and> length (live (snd (launchUpdatesListener ReturnsObject (init_conn True)))) = 1"
proof -
  have t: "truthy_ref (eventListener (snd (launchUpdatesListener ReturnsObject (init_conn True))))"
    by (simp add: lifecycle_defs)
  have r: "run [] (init_conn True) = Some (init_conn True)" by simp
  have l: "live (snd (launchUpdatesListener ReturnsObject (init_conn True))) = [0]"
    by (simp add: lifecycle_defs)
  note i = launch_idempotent [of "snd (launchUpdatesListener ReturnsObject (init_conn True))" Throws
      "[]" True "init_conn True" ReturnsObject Throws]
  have one: "length (live (snd (launchUpdatesListener ReturnsObject (init_conn True)))) = 1"
    using i [THEN conjunct2, THEN mp, OF conjI [OF r t]] by simp
  show ?thesis
    using i [THEN conjunct1, THEN mp, OF t] t l one by simp
qed

text \<open>
  Claim C10: \<open>launchUpdatesListener\<close> returns \<^verbatim>\<open>true\<close> in every state, also when the
  constructor throws and the exception is caught; it returns \<^verbatim>\<open>false\<close> only on the branch
  that tests the constructed socket for a falsy value, which no completed \<^verbatim>\<open>new\<close>
  expression yields.
\<close>

theorem launch_returns_true:
  "fst (launchUpdatesListener r s) = (r \<noteq> ReturnsFalsy \<or> truthy_ref (eventListener s))"
  by (cases r) (simp_all add: launchUpdatesListener_def Let_def)

theorem launch_returns_true_witness:
  "fst (launchUpdatesListener Throws (init_conn True))
   \<and> fst (launchUpdatesListener ReturnsObject (init_conn True))
   \<and> eventListener (snd (launchUpdatesListener Throws (init_conn True))) = Null"
  using launch_returns_true [of Throws "init_conn True"]
    launch_returns_true [of ReturnsObject "init_conn True"]
  by (simp add: lifecycle_defs)

section \<open>A constructor that throws\<close>

text \<open>
  Claim C3 where the attempt fails in the constructor: with the cursor present and no
  listener held, \<open>waitForBootstrap\<close> logs the failure and returns, and the state it
  leaves holds no listener, no pending \<open>waitForBootstrap\<close> timeout, no running timer and
  no socket that could emit an event. No timer and no socket event can follow: the
  module stays as it is until something outside calls it again.
\<close>

theorem constructor_failure_not_retried:
  assumes "run es (init_conn c) = Some s" and "lastUpdateId s"
    and "\<not> truthy_ref (eventListener s)" and "timeouts s = 0"
  shows "eventListener (waitForBootstrap Throws s) = eventListener s
         \<and> effects_since s (waitForBootstrap Throws s)
             = [Debug LogCalledWaitForBootstrap, Debug LogUpdateListener, Status Connecting,
                Debug LogErrorConnecting, Status ErrorStatus]
         \<and> timeouts (waitForBootstrap Throws s) = 0
         \<and> step (PollTimeout r) (waitForBootstrap Throws s) = None
         \<and> step (Tick t sendThrows) (waitForBootstrap Throws s) = None
         \<and> step (SockOpen w) (waitForBootstrap Throws s) = None
         \<and> step (SockError w b) (waitForBootstrap Throws s) = None
         \<and> step (SockClose w r) (waitForBootstrap Throws s) = None"
proof -
  have wf: "wf_conn s" using wf_init assms(1) by (rule wf_run)
  have idle: "intervals s = []" "live s = []"
    using wf assms(3) by (cases "eventListener s"; simp add: wf_conn_def)+
  show ?thesis
    using assms(2,3,4) idle
    by (cases "eventListener s")
      (simp_all add: waitForBootstrap_def launchUpdatesListener_def configureUpdatesListener_def
        emit_def Let_def effects_since_def)
qed

theorem constructor_failure_not_retried_witness:
  "waitForBootstrap Throws (init_conn True) =
     \<lparr>eventListener = Null, eventListenerConfigured = False, pingPong = Null,
      lastUpdateId = True, intervals = [], timeouts = 0, live = [], routed = [], next_id = 0,
      effects = [Debug LogCalledWaitForBootstrap, Debug LogUpdateListener, Status Connecting,
                 Debug LogErrorConnecting, Status ErrorStatus]\<rparr>
   \<and> step (PollTimeout ReturnsObject) (waitForBootstrap Throws (init_conn True)) = None
   \<and> step (SockClose 0 ReturnsObject) (waitForBootstrap Throws (init_conn True)) = None"
proof -
  have r: "run [] (init_conn True) = Some (init_conn True)" by simp
  have h: "lastUpdateId (init_conn True)" "\<not> truthy_ref (eventListener (init_conn True))"
    "timeouts (init_conn True) = 0"
    by (simp_all add: init_conn_def)
  have v: "waitForBootstrap Throws (init_conn True) =
     \<lparr>eventListener = Null, eventListenerConfigured = False, pingPong = Null,
      lastUpdateId = True, intervals = [], timeouts = 0, live = [], routed = [], next_id = 0,
      effects = [Debug LogCalledWaitForBootstrap, Debug LogUpdateListener, Status Connecting,
                 Debug LogErrorConnecting, Status ErrorStatus]\<rparr>"
    by (simp add: lifecycle_defs)
  show ?thesis
    using constructor_failure_not_retried [OF r h, where r = ReturnsObject and w = 0] v by simp
qed

end
